theory Spec2Isabelle
  imports Main "HOL-Library.Sublist"
begin

section \<open>Strings\<close>

text \<open>
  A Python \<open>str\<close> is modelled as a \<open>string\<close> holding the bytes of its UTF-8 encoding (a
  lone surrogate is written as the three bytes its code point would take). The source
  only concatenates strings, tests them for emptiness, compares them with ASCII
  literals, cuts an ASCII prefix off and strips white space; all of these agree on
  code points and on UTF-8 bytes, once \<open>strip\<close> knows the encodings of the white-space
  characters beyond ASCII.
\<close>

definition startswith :: "string \<Rightarrow> string \<Rightarrow> bool" where
  "startswith s p = prefix p s"

text \<open>The characters for which \<open>str.isspace\<close> holds, in UTF-8.\<close>

definition whitespace :: "string list" where
  "whitespace =
     [[CHR 0x09], [CHR 0x0A], [CHR 0x0B], [CHR 0x0C], [CHR 0x0D],
      [CHR 0x1C], [CHR 0x1D], [CHR 0x1E], [CHR 0x1F], [CHR 0x20],
      [CHR 0xC2, CHR 0x85], [CHR 0xC2, CHR 0xA0],
      [CHR 0xE1, CHR 0x9A, CHR 0x80],
      [CHR 0xE2, CHR 0x80, CHR 0x80], [CHR 0xE2, CHR 0x80, CHR 0x81],
      [CHR 0xE2, CHR 0x80, CHR 0x82], [CHR 0xE2, CHR 0x80, CHR 0x83],
      [CHR 0xE2, CHR 0x80, CHR 0x84], [CHR 0xE2, CHR 0x80, CHR 0x85],
      [CHR 0xE2, CHR 0x80, CHR 0x86], [CHR 0xE2, CHR 0x80, CHR 0x87],
      [CHR 0xE2, CHR 0x80, CHR 0x88], [CHR 0xE2, CHR 0x80, CHR 0x89],
      [CHR 0xE2, CHR 0x80, CHR 0x8A],
      [CHR 0xE2, CHR 0x80, CHR 0xA8], [CHR 0xE2, CHR 0x80, CHR 0xA9],
      [CHR 0xE2, CHR 0x80, CHR 0xAF], [CHR 0xE2, CHR 0x81, CHR 0x9F],
      [CHR 0xE3, CHR 0x80, CHR 0x80]]"

text \<open>The number of bytes of the white-space character a string starts with, 0 if none.\<close>

definition space_width :: "string list \<Rightarrow> string \<Rightarrow> nat" where
  "space_width ws s = (case find (\<lambda>w. prefix w s) ws of None \<Rightarrow> 0 | Some w \<Rightarrow> length w)"

fun lstrip_with :: "string list \<Rightarrow> string \<Rightarrow> string" where
  "lstrip_with ws [] = []"
| "lstrip_with ws (c # s) =
     (case space_width ws (c # s) of
        0 \<Rightarrow> c # s
      | Suc k \<Rightarrow> lstrip_with ws (drop k s))"

definition lstrip :: "string \<Rightarrow> string" where
  "lstrip s = lstrip_with whitespace s"

definition rstrip :: "string \<Rightarrow> string" where
  "rstrip s = rev (lstrip_with (map rev whitespace) (rev s))"

definition strip :: "string \<Rightarrow> string" where
  "strip s = rstrip (lstrip s)"

section \<open>JSON values and Python's operations on them\<close>

text \<open>
  The values \<open>json.loads\<close> returns. An \<open>int\<close> is unbounded; a \<open>float\<close> is kept as the
  decimal the text denotes, \<open>JFloat m e\<close> standing for \<open>m * 10 ^ e\<close>, since the source only
  asks whether it is zero; \<open>JInfinity True\<close> is \<open>-Infinity\<close>. A \<open>dict\<close> is an association
  list with distinct keys in insertion order.
\<close>

datatype json =
    JNull
  | JBool bool
  | JInt int
  | JFloat int int
  | JNaN
  | JInfinity bool
  | JString string
  | JArray "json list"
  | JObject "(string \<times> json) list"

datatype py_exception =
    JSONDecodeError
  | IndexError
  | KeyError
  | AttributeError
  | TypeError
  | HTTPStatusError nat
  | ResponseNotRead
  | TransportError

text \<open>\<open>d[k] = v\<close> on a dict: a present key keeps its place and takes the new value.\<close>

fun dict_set :: "(string \<times> json) list \<Rightarrow> string \<Rightarrow> json \<Rightarrow> (string \<times> json) list" where
  "dict_set [] k v = [(k, v)]"
| "dict_set ((k', v') # kvs) k v =
     (if k' = k then (k, v) # kvs else (k', v') # dict_set kvs k v)"

text \<open>
  Whether the decimal \<open>m * 10 ^ e\<close> is read as a float other than zero: \<open>float\<close> rounds to
  the nearest double, ties to even, so exactly the decimals of magnitude at most
  \<open>2 ^ -1075\<close> become \<open>0.0\<close>.
\<close>

definition float_nonzero :: "int \<Rightarrow> int \<Rightarrow> bool" where
  "float_nonzero m e =
     (m \<noteq> 0 \<and> (0 \<le> e \<or> (10::int) ^ nat (- e) < \<bar>m\<bar> * 2 ^ 1075))"

text \<open>Python's truth value of a decoded value, as \<open>if token:\<close> tests it.\<close>

fun truthy :: "json \<Rightarrow> bool" where
  "truthy JNull = False"
| "truthy (JBool b) = b"
| "truthy (JInt i) = (i \<noteq> 0)"
| "truthy (JFloat m e) = float_nonzero m e"
| "truthy JNaN = True"
| "truthy (JInfinity n) = True"
| "truthy (JString s) = (s \<noteq> [])"
| "truthy (JArray xs) = (xs \<noteq> [])"
| "truthy (JObject kvs) = (kvs \<noteq> [])"

section \<open>The decoder \<open>json.loads\<close>\<close>

text \<open>
  The standard library's decoder with its default settings (strict strings, the
  constants \<open>NaN\<close>, \<open>Infinity\<close> and \<open>-Infinity\<close> accepted), on a \<open>str\<close>. It is not part of
  the repository; it is modelled so that \<open>stream_chat\<close> can be run on concrete lines.
  The text is first cut into tokens, which a stack machine then reads. The
  interpreter's limits (recursion depth, digits of an integer) are not modelled.
\<close>

datatype token = LBrace | RBrace | LBracket | RBracket | Colon | Comma | Atom json

definition is_digit :: "char \<Rightarrow> bool" where
  "is_digit c = (c \<in> set ''0123456789'')"

definition digit_val :: "char \<Rightarrow> nat" where
  "digit_val c = of_char c - 48"

definition decimal :: "string \<Rightarrow> nat" where
  "decimal ds = foldl (\<lambda>n c. 10 * n + digit_val c) 0 ds"

definition hex_val :: "char \<Rightarrow> nat option" where
  "hex_val c =
     (if is_digit c then Some (digit_val c)
      else if c \<in> set ''abcdef'' then Some (of_char c - 87)
      else if c \<in> set ''ABCDEF'' then Some (of_char c - 55)
      else None)"

definition hex4 :: "char \<Rightarrow> char \<Rightarrow> char \<Rightarrow> char \<Rightarrow> nat option" where
  "hex4 a b c d =
     (case (hex_val a, hex_val b, hex_val c, hex_val d) of
        (Some w, Some x, Some y, Some z) \<Rightarrow> Some (4096 * w + 256 * x + 16 * y + z)
      | _ \<Rightarrow> None)"

definition utf8 :: "nat \<Rightarrow> string" where
  "utf8 n =
     (if n < 0x80 then [char_of n]
      else if n < 0x800 then [char_of (0xC0 + n div 64), char_of (0x80 + n mod 64)]
      else if n < 0x10000 then
        [char_of (0xE0 + n div 4096), char_of (0x80 + n div 64 mod 64),
         char_of (0x80 + n mod 64)]
      else
        [char_of (0xF0 + n div 262144), char_of (0x80 + n div 4096 mod 64),
         char_of (0x80 + n div 64 mod 64), char_of (0x80 + n mod 64)])"

definition unescape :: "char \<Rightarrow> char option" where
  "unescape c =
     (if c = CHR 0x22 \<or> c = CHR 0x5C \<or> c = CHR ''/'' then Some c
      else if c = CHR ''b'' then Some (CHR 0x08)
      else if c = CHR ''f'' then Some (CHR 0x0C)
      else if c = CHR ''n'' then Some (CHR 0x0A)
      else if c = CHR ''r'' then Some (CHR 0x0D)
      else if c = CHR ''t'' then Some (CHR 0x09)
      else None)"

definition emit :: "string \<Rightarrow> nat \<Rightarrow> (string \<times> nat) option \<Rightarrow> (string \<times> nat) option" where
  "emit cs k r = map_option (\<lambda>(str, n). (cs @ str, k + n)) r"

text \<open>
  The escape after a backslash: the bytes it stands for and the number of characters
  read after the backslash. A high surrogate followed by an escaped low surrogate is
  one character; followed by an escape that is no hexadecimal number it is an error.
\<close>

definition scan_escape :: "string \<Rightarrow> (string \<times> nat) option" where
  "scan_escape s =
     (case s of
        [] \<Rightarrow> None
      | esc # s1 \<Rightarrow>
          if esc \<noteq> CHR ''u'' then map_option (\<lambda>ch. ([ch], 1)) (unescape esc)
          else
            (case s1 of
               h1 # h2 # h3 # h4 # s2 \<Rightarrow>
                 (case hex4 h1 h2 h3 h4 of
                    None \<Rightarrow> None
                  | Some uni \<Rightarrow>
                      if 0xD800 \<le> uni \<and> uni \<le> 0xDBFF \<and> startswith s2 [CHR 0x5C, CHR ''u'']
                      then
                        (case drop 2 s2 of
                           l1 # l2 # l3 # l4 # s3 \<Rightarrow>
                             (case hex4 l1 l2 l3 l4 of
                                None \<Rightarrow> None
                              | Some uni2 \<Rightarrow>
                                  if 0xDC00 \<le> uni2 \<and> uni2 \<le> 0xDFFF
                                  then Some (utf8 (0x10000 + (uni - 0xD800) * 1024
                                                     + (uni2 - 0xDC00)), 11)
                                  else Some (utf8 uni, 5))
                         | _ \<Rightarrow> None)
                      else Some (utf8 uni, 5))
             | _ \<Rightarrow> None))"

text \<open>
  \<open>scanstring\<close>, on the text after the opening quote: the decoded contents and the
  number of characters read, the closing quote among them.
\<close>

fun scanstring :: "string \<Rightarrow> (string \<times> nat) option" where
  "scanstring [] = None"
| "scanstring (c # s) =
     (if c = CHR 0x22 then Some ([], 1)
      else if c = CHR 0x5C then
        (case scan_escape s of
           None \<Rightarrow> None
         | Some (cs, n) \<Rightarrow> emit cs (Suc n) (scanstring (drop n s)))
      else if (of_char c :: nat) < 0x20 then None
      else emit [c] 1 (scanstring s))"

text \<open>
  A number, on a text that starts with \<open>-\<close> or a digit: the value and the number of
  characters read. The integer part is \<open>0\<close> or starts with a digit other than \<open>0\<close>; a
  fraction needs a digit after the point, an exponent a digit after its sign, and is
  left unread otherwise.
\<close>

definition scan_number :: "string \<Rightarrow> (json \<times> nat) option" where
  "scan_number s =
     (let neg = startswith s ''-'';
          s1 = (if neg then drop 1 s else s);
          ds = (if startswith s1 ''0'' then ''0'' else takeWhile is_digit s1);
          s2 = drop (length ds) s1;
          fs = (if startswith s2 ''.'' then takeWhile is_digit (drop 1 s2) else []);
          nf = (if fs = [] then 0 else Suc (length fs));
          s3 = drop nf s2;
          s4 = (if startswith s3 ''e'' \<or> startswith s3 ''E'' then drop 1 s3 else []);
          eneg = startswith s4 ''-'';
          signed = (eneg \<or> startswith s4 ''+'');
          es = takeWhile is_digit (if signed then drop 1 s4 else s4);
          ne = (if es = [] then 0 else Suc (length es) + (if signed then 1 else 0));
          sgn = (\<lambda>b n. if b then - int n else int n);
          n = (if neg then 1 else 0) + length ds + nf + ne
      in if ds = [] then None
         else if fs = [] \<and> es = [] then Some (JInt (sgn neg (decimal ds)), n)
         else Some (JFloat (sgn neg (decimal (ds @ fs)))
                      (sgn eneg (decimal es) - int (length fs)), n))"

text \<open>
  The tokens of a text, or \<open>None\<close> where the scanner finds no token. White space between
  tokens is blank, tab, line feed and carriage return. A number is read only where no
  other token starts, so the character it starts with is always read.
\<close>

fun tokenize :: "string \<Rightarrow> token list option" where
  "tokenize [] = Some []"
| "tokenize (c # s) =
     (if c \<in> {CHR 0x20, CHR 0x09, CHR 0x0A, CHR 0x0D} then tokenize s
      else if c = CHR ''{'' then map_option ((#) LBrace) (tokenize s)
      else if c = CHR ''}'' then map_option ((#) RBrace) (tokenize s)
      else if c = CHR ''['' then map_option ((#) LBracket) (tokenize s)
      else if c = CHR '']'' then map_option ((#) RBracket) (tokenize s)
      else if c = CHR '':'' then map_option ((#) Colon) (tokenize s)
      else if c = CHR '','' then map_option ((#) Comma) (tokenize s)
      else if c = CHR 0x22 then
        (case scanstring s of
           None \<Rightarrow> None
         | Some (str, n) \<Rightarrow> map_option ((#) (Atom (JString str))) (tokenize (drop n s)))
      else if startswith (c # s) ''null'' then
        map_option ((#) (Atom JNull)) (tokenize (drop 3 s))
      else if startswith (c # s) ''true'' then
        map_option ((#) (Atom (JBool True))) (tokenize (drop 3 s))
      else if startswith (c # s) ''false'' then
        map_option ((#) (Atom (JBool False))) (tokenize (drop 4 s))
      else if startswith (c # s) ''NaN'' then
        map_option ((#) (Atom JNaN)) (tokenize (drop 2 s))
      else if startswith (c # s) ''Infinity'' then
        map_option ((#) (Atom (JInfinity False))) (tokenize (drop 7 s))
      else if startswith (c # s) ''-Infinity'' then
        map_option ((#) (Atom (JInfinity True))) (tokenize (drop 8 s))
      else
        (case scan_number (c # s) of
           None \<Rightarrow> None
         | Some (v, n) \<Rightarrow> map_option ((#) (Atom v)) (tokenize (drop (n - 1) s))))"

text \<open>
  The stack machine. A frame is a container being read: an array with its elements so
  far, or an object with its members so far and the key whose value is awaited.
\<close>

datatype frame = ArrayF "json list" | ObjectF "(string \<times> json) list" "string option"

datatype expect = Value | ValueOrClose | Key | KeyOrClose | ColonSign | Separator

datatype pstate = Expect expect "frame list" | Done json

fun deliver :: "json \<Rightarrow> frame list \<Rightarrow> pstate option" where
  "deliver v [] = Some (Done v)"
| "deliver v (ArrayF es # st) = Some (Expect Separator (ArrayF (es @ [v]) # st))"
| "deliver v (ObjectF kvs (Some k) # st) =
     Some (Expect Separator (ObjectF (dict_set kvs k v) None # st))"
| "deliver v (ObjectF kvs None # st) = None"

fun begin_value :: "token \<Rightarrow> frame list \<Rightarrow> pstate option" where
  "begin_value (Atom v) st = deliver v st"
| "begin_value LBrace st = Some (Expect KeyOrClose (ObjectF [] None # st))"
| "begin_value LBracket st = Some (Expect ValueOrClose (ArrayF [] # st))"
| "begin_value t st = None"

fun begin_key :: "token \<Rightarrow> frame list \<Rightarrow> pstate option" where
  "begin_key (Atom (JString k)) (ObjectF kvs None # st) =
     Some (Expect ColonSign (ObjectF kvs (Some k) # st))"
| "begin_key t st = None"

fun close :: "token \<Rightarrow> frame list \<Rightarrow> pstate option" where
  "close RBracket (ArrayF es # st) = deliver (JArray es) st"
| "close RBrace (ObjectF kvs None # st) = deliver (JObject kvs) st"
| "close t st = None"

fun step :: "pstate \<Rightarrow> token \<Rightarrow> pstate option" where
  "step (Done v) t = None"
| "step (Expect Value st) t = begin_value t st"
| "step (Expect ValueOrClose st) t = (if t = RBracket then close t st else begin_value t st)"
| "step (Expect Key st) t = begin_key t st"
| "step (Expect KeyOrClose st) t = (if t = RBrace then close t st else begin_key t st)"
| "step (Expect ColonSign st) t = (if t = Colon then Some (Expect Value st) else None)"
| "step (Expect Separator st) t =
     (if t = Comma then
        (case st of
           ArrayF es # st' \<Rightarrow> Some (Expect Value st)
         | ObjectF kvs k # st' \<Rightarrow> Some (Expect Key st)
         | [] \<Rightarrow> None)
      else close t st)"

fun read_tokens :: "pstate \<Rightarrow> token list \<Rightarrow> pstate option" where
  "read_tokens p [] = Some p"
| "read_tokens p (t # ts) =
     (case step p t of None \<Rightarrow> None | Some p' \<Rightarrow> read_tokens p' ts)"

definition json_loads :: "string \<Rightarrow> py_exception + json" where
  "json_loads s =
     (case tokenize s of
        None \<Rightarrow> Inl JSONDecodeError
      | Some ts \<Rightarrow>
          (case read_tokens (Expect Value []) ts of
             Some (Done v) \<Rightarrow> Inr v
           | _ \<Rightarrow> Inl JSONDecodeError))"

section \<open>Python's operations on decoded values\<close>

text \<open>An exception is a value: \<open>Inl\<close> raises it, and \<open>then_do\<close> passes it on.\<close>

definition then_do :: "py_exception + 'a \<Rightarrow> ('a \<Rightarrow> py_exception + 'b) \<Rightarrow> py_exception + 'b" where
  "then_do r f = (case r of Inl e \<Rightarrow> Inl e | Inr v \<Rightarrow> f v)"

text \<open>\<open>x.get(k, d)\<close>: only a dict has the method.\<close>

definition py_get :: "json \<Rightarrow> string \<Rightarrow> json \<Rightarrow> py_exception + json" where
  "py_get x k d =
     (case x of
        JObject kvs \<Rightarrow> Inr (case map_of kvs k of None \<Rightarrow> d | Some v \<Rightarrow> v)
      | _ \<Rightarrow> Inl AttributeError)"

text \<open>The number of bytes of the character that starts with the byte \<open>c\<close>.\<close>

definition char_width :: "char \<Rightarrow> nat" where
  "char_width c =
     (if (of_char c :: nat) < 0xC0 then 1
      else if (of_char c :: nat) < 0xE0 then 2
      else if (of_char c :: nat) < 0xF0 then 3
      else 4)"

text \<open>
  \<open>x[0]\<close>: the first element of a list, the first character of a string, the value
  under the key \<open>0\<close> of a dict (a decoded object has string keys only); nothing else can
  be subscripted.
\<close>

definition py_index0 :: "json \<Rightarrow> py_exception + json" where
  "py_index0 x =
     (case x of
        JArray [] \<Rightarrow> Inl IndexError
      | JArray (v # vs) \<Rightarrow> Inr v
      | JString [] \<Rightarrow> Inl IndexError
      | JString (c # s) \<Rightarrow> Inr (JString (take (char_width c) (c # s)))
      | JObject kvs \<Rightarrow> Inl KeyError
      | _ \<Rightarrow> Inl TypeError)"

text \<open>The characters of a string, each a string of its own.\<close>

fun chars :: "string \<Rightarrow> string list" where
  "chars [] = []"
| "chars (c # s) = take (char_width c) (c # s) # chars (drop (char_width c - 1) s)"

text \<open>\<open>for model in x\<close>: the elements of a list, the keys of a dict, the characters of a string.\<close>

definition py_iter :: "json \<Rightarrow> py_exception + json list" where
  "py_iter x =
     (case x of
        JArray vs \<Rightarrow> Inr vs
      | JObject kvs \<Rightarrow> Inr (map (\<lambda>(k, v). JString k) kvs)
      | JString s \<Rightarrow> Inr (map JString (chars s))
      | _ \<Rightarrow> Inl TypeError)"

text \<open>\<open>k in x\<close>: a key of a dict, an element of a list, a substring of a string.\<close>

definition py_contains :: "json \<Rightarrow> string \<Rightarrow> py_exception + bool" where
  "py_contains x k =
     (case x of
        JObject kvs \<Rightarrow> Inr (k \<in> fst ` set kvs)
      | JArray vs \<Rightarrow> Inr (JString k \<in> set vs)
      | JString s \<Rightarrow> Inr (sublist k s)
      | _ \<Rightarrow> Inl TypeError)"

text \<open>\<open>x[k]\<close> for a string \<open>k\<close>: lists and strings take integer indices only.\<close>

definition py_getitem :: "json \<Rightarrow> string \<Rightarrow> py_exception + json" where
  "py_getitem x k =
     (case x of
        JObject kvs \<Rightarrow> (case map_of kvs k of None \<Rightarrow> Inl KeyError | Some v \<Rightarrow> Inr v)
      | _ \<Rightarrow> Inl TypeError)"

text \<open>The decimal digits of a number, as an f-string writes an \<open>int\<close>.\<close>

fun str_nat :: "nat \<Rightarrow> string" where
  "str_nat n =
     (if n < 10 then [char_of (48 + n)]
      else str_nat (n div 10) @ [char_of (48 + n mod 10)])"

section \<open>The backend and what a call leaves behind\<close>

text \<open>
  A message is the dict \<open>{"role": ..., "content": ...}\<close>, the request body is the dict
  \<open>payload\<close> of \<open>stream_chat\<close>.
\<close>

record message =
  role :: string
  content :: string

record payload =
  model :: string
  messages :: "message list"
  stream :: bool

definition user :: "string \<Rightarrow> message" where
  "user c = \<lparr>role = ''user'', content = c\<rparr>"

definition assistant :: "string \<Rightarrow> message" where
  "assistant c = \<lparr>role = ''assistant'', content = c\<rparr>"

text \<open>
  What \<open>httpx\<close> does with the request is an input of the model, an \<open>exchange\<close>, used only
  if a request is made. A request either raises before
  there is a response (\<open>RequestFailed\<close>), or answers with a status code and a body. The
  body of a streamed response is the sequence of lines \<open>iter_lines\<close> produces, which ends
  when the server closes the stream (\<open>Closed\<close>) or with an exception of the transport
  (\<open>Broken\<close>). The last argument is what reading the property \<open>text\<close> of the response
  does: it returns the body, or raises. \<open>httpx.stream\<close> does not read the body, and a response
  whose body was not read raises \<open>ResponseNotRead\<close> there; so every response of
  \<open>httpx.stream\<close> on which \<open>iter_lines\<close> never ran has \<open>Inl ResponseNotRead\<close> there.
\<close>

datatype stream_end = Closed | Broken

datatype exchange =
    RequestFailed
  | Response nat "string list" stream_end "py_exception + string"

text \<open>\<open>raise_for_status\<close> raises \<open>HTTPStatusError\<close> unless the status is 2xx.\<close>

definition is_success :: "nat \<Rightarrow> bool" where
  "is_success status = (200 \<le> status \<and> status \<le> 299)"

text \<open>
  A call of \<open>log.error\<close>: the message, and the exception whose description the call adds
  to it (\<open>exc_info=True\<close>, or interpolated at the end of the message).
\<close>

datatype log_record = LogError string "py_exception option"

text \<open>
  A run of a generator to its end: the items it yielded, the request bodies it POSTed,
  and the exception that left it, if any; for \<open>stream_chat\<close> also what it logged.
\<close>

record 'a run =
  items :: "'a list"
  posts :: "payload list"
  raised :: "py_exception option"

record 'a logged_run = "'a run" +
  logged :: "log_record list"

section \<open>\<open>fetch_models\<close>\<close>

text \<open>
  The response to the GET is an input: the request raised, or it answered with a
  status and a body, here the text \<open>r.json()\<close> hands to the decoder. \<open>endpoint\<close> is
  \<open>str(LLM_MODELS_ENDPOINT)\<close>, built from the environment.
\<close>

datatype get_outcome = GetFailed | GetResponse nat string

text \<open>Lines 42 to 44: the three calls inside \<open>try\<close>.\<close>

definition get_json :: "get_outcome \<Rightarrow> py_exception + json" where
  "get_json outcome =
     (case outcome of
        GetFailed \<Rightarrow> Inl TransportError
      | GetResponse status body \<Rightarrow>
          if is_success status then json_loads body else Inl (HTTPStatusError status))"

text \<open>Line 49: \<open>[model["id"] for model in ... if "id" in model]\<close>.\<close>

fun collect_ids :: "json list \<Rightarrow> py_exception + json list" where
  "collect_ids [] = Inr []"
| "collect_ids (m # rest) =
     then_do (py_contains m ''id'') (\<lambda>has_id.
       if has_id then
         then_do (py_getitem m ''id'') (\<lambda>v.
         then_do (collect_ids rest) (\<lambda>vs. Inr (v # vs)))
       else collect_ids rest)"

text \<open>
  The value returned or the exception raised, and the log. Only lines 42 to 44 are
  inside \<open>try\<close>; from line 49 on an exception leaves the function.
\<close>

definition fetch_models ::
    "string \<Rightarrow> get_outcome \<Rightarrow> (py_exception + json list \<times> json option) \<times> log_record list" where
  "fetch_models endpoint outcome =
     (case get_json outcome of
        Inl e \<Rightarrow>
          (Inr ([], None), [LogError (''Failed to fetch models from '' @ endpoint) (Some e)])
      | Inr data \<Rightarrow>
          (then_do (py_get data ''data'' (JArray [])) (\<lambda>listed.
           then_do (py_iter listed) (\<lambda>models.
           then_do (collect_ids models) (\<lambda>choices.
             Inr (choices, case choices of [] \<Rightarrow> None | c # cs \<Rightarrow> Some c)))),
           []))"

section \<open>\<open>stream_chat\<close>\<close>

definition warning_sign :: string where
  "warning_sign = [CHR 0xE2, CHR 0x9A, CHR 0xA0, CHR 0xEF, CHR 0xB8, CHR 0x8F]"

definition select_model_warning :: string where
  "select_model_warning =
     warning_sign @ '' **Error:** Please select a model from the dropdown menu first.''"

definition http_error_text :: "nat \<Rightarrow> string" where
  "http_error_text status = ''HTTP error occurred: '' @ str_nat status"

definition http_error_item :: "nat \<Rightarrow> string" where
  "http_error_item status =
     warning_sign @ '' **Error:** '' @ http_error_text status
       @ ''. Please check the logs for details.''"

definition unexpected_error_item :: string where
  "unexpected_error_item =
     warning_sign @ '' **Error:** An unexpected error occurred. Please check the logs.''"

text \<open>
  Lines 107 to 111, the body of the inner \<open>try\<close> for one payload: the token it yields,
  if any, or the exception it raises.
\<close>

definition chunk_token :: "string \<Rightarrow> py_exception + json option" where
  "chunk_token data_str =
     then_do (json_loads data_str) (\<lambda>chunk.
     then_do (py_get chunk ''choices'' (JArray [JObject []])) (\<lambda>choices.
     then_do (py_index0 choices) (\<lambda>choice.
     then_do (py_get choice ''delta'' (JObject [])) (\<lambda>delta.
     then_do (py_get delta ''content'' JNull) (\<lambda>token.
       Inr (if truthy token then Some token else None))))))"

text \<open>Line 112: the exceptions after which the loop goes on with the next line.\<close>

definition skipped :: "py_exception \<Rightarrow> bool" where
  "skipped e = (e = JSONDecodeError \<or> e = IndexError \<or> e = KeyError)"

text \<open>
  Lines 98 to 113, the loop over the lines: the tokens yielded, and the exception that
  leaves the loop, if any.
\<close>

fun for_raw_chunk :: "string list \<Rightarrow> stream_end \<Rightarrow> json list \<times> py_exception option" where
  "for_raw_chunk [] ending = ([], case ending of Closed \<Rightarrow> None | Broken \<Rightarrow> Some TransportError)"
| "for_raw_chunk (raw_chunk # rest) ending =
     (if \<not> startswith raw_chunk ''data: '' then for_raw_chunk rest ending
      else if strip (drop 6 raw_chunk) = ''[DONE]'' then ([], None)
      else
        (case chunk_token (drop 6 raw_chunk) of
           Inl e \<Rightarrow> if skipped e then for_raw_chunk rest ending else ([], Some e)
         | Inr None \<Rightarrow> for_raw_chunk rest ending
         | Inr (Some token) \<Rightarrow>
             (case for_raw_chunk rest ending of (tokens, e) \<Rightarrow> (token # tokens, e))))"

text \<open>
  The body of the generator, run on the contents \<open>chat_history\<close> has when the body
  starts; \<open>answer\<close> is what the backend does with the request. An item is a Python
  value: \<open>JString\<close> for a \<open>str\<close>, and whatever else a payload holds as its content.
\<close>

definition stream_chat ::
    "string \<Rightarrow> message list \<Rightarrow> string option \<Rightarrow> exchange \<Rightarrow> json logged_run" where
  "stream_chat question chat_history model_choice answer =
     (case model_choice of
        None \<Rightarrow>
          \<lparr>items = [JString select_model_warning], posts = [], raised = None, logged = []\<rparr>
      | Some m \<Rightarrow>
          if m = [] then
            \<lparr>items = [JString select_model_warning], posts = [], raised = None, logged = []\<rparr>
          else
            (let msgs = chat_history @ [user question];
                 body = \<lparr>model = m, messages = msgs, stream = True\<rparr>
             in case answer of
                  RequestFailed \<Rightarrow>
                    \<lparr>items = [JString unexpected_error_item], posts = [body],
                     raised = None,
                     logged = [LogError ''An unexpected error occurred during streaming: ''
                                 (Some TransportError)]\<rparr>
                | Response status ls ending txt \<Rightarrow>
                    if \<not> is_success status then
                      (case txt of
                         Inl e \<Rightarrow>
                           \<lparr>items = [], posts = [body], raised = Some e, logged = []\<rparr>
                       | Inr t \<Rightarrow>
                           \<lparr>items = [JString (http_error_item status)], posts = [body],
                            raised = None,
                            logged = [LogError (http_error_text status @ '' - '' @ t) None]\<rparr>)
                    else
                      (case for_raw_chunk ls ending of
                         (tokens, None) \<Rightarrow>
                           \<lparr>items = tokens, posts = [body], raised = None, logged = []\<rparr>
                       | (tokens, Some e) \<Rightarrow>
                           \<lparr>items = tokens @ [JString unexpected_error_item],
                            posts = [body],
                            raised = None,
                            logged = [LogError
                                        ''An unexpected error occurred during streaming: ''
                                        (Some e)]\<rparr>)))"

section \<open>\<open>respond\<close>\<close>

text \<open>
  \<open>respond\<close> appends to the list it was given, and the generator it created holds the
  same list. So a list is an object in a heap, and \<open>chat_history\<close> is a reference to it.
\<close>

type_synonym ref = nat

type_synonym heap = "ref \<Rightarrow> message list"

definition list_append :: "heap \<Rightarrow> ref \<Rightarrow> message \<Rightarrow> heap" where
  "list_append h r m = h(r := h r @ [m])"

text \<open>\<open>chat_history[-1]["content"] = buffer\<close>.\<close>

definition set_last_content :: "heap \<Rightarrow> ref \<Rightarrow> string \<Rightarrow> py_exception + heap" where
  "set_last_content h r buffer =
     (if h r = [] then Inl IndexError
      else Inr (h(r := butlast (h r) @ [(last (h r))\<lparr>content := buffer\<rparr>])))"

text \<open>
  Lines 153 to 156, the loop over the items of the generator, of which \<open>e\<close> is the
  exception that leaves the generator after its last item: the pairs yielded, each
  with the list as it is at that yield, and the exception that leaves the loop.
  \<open>buffer += token\<close> raises \<open>TypeError\<close> when the item is not a \<open>str\<close>.
\<close>

fun for_token ::
    "ref \<Rightarrow> string \<Rightarrow> json list \<Rightarrow> py_exception option \<Rightarrow> heap
       \<Rightarrow> (message list \<times> string) list \<times> py_exception option" where
  "for_token r buffer [] e h = ([], e)"
| "for_token r buffer (JString t # rest) e h =
     (case set_last_content h r (buffer @ t) of
        Inl x \<Rightarrow> ([], Some x)
      | Inr h' \<Rightarrow>
          (case for_token r (buffer @ t) rest e h' of
             (ys, x) \<Rightarrow> ((h' r, []) # ys, x)))"
| "for_token r buffer (token # rest) e h = ([], Some TypeError)"

text \<open>
  Calling the generator function runs none of its body: \<open>bot_stream\<close> is the body
  waiting for the heap of the moment it is first resumed, which is the first round of
  the loop at line 153, after the two appends and the first yield. The body reads the
  list once, at line 84, and the request body is written when the request is sent, so
  the later assignments to the last message do not reach it. The result is that of
  driving \<open>respond\<close> to its end; what the generator logs is left out of it.
\<close>

definition respond ::
    "string \<Rightarrow> ref \<Rightarrow> string option \<Rightarrow> exchange \<Rightarrow> heap
       \<Rightarrow> (message list \<times> string) run" where
  "respond message chat_history model_choice answer h =
     (let bot_stream = (\<lambda>h'. stream_chat message (h' chat_history) model_choice answer);
          h1 = list_append h chat_history (user message);
          h2 = list_append h1 chat_history (assistant []);
          first = (h2 chat_history, []);
          bot = bot_stream h2
      in case for_token chat_history [] (items bot) (raised bot) h2 of
           (ys, e) \<Rightarrow> \<lparr>items = first # ys, posts = posts bot, raised = e\<rparr>)"

section \<open>What the specification speaks of\<close>

text \<open>The identifier of a listed model: the value under \<open>id\<close> of an object that has one.\<close>

definition model_id :: "json \<Rightarrow> json option" where
  "model_id m = (case m of JObject members \<Rightarrow> map_of members ''id'' | _ \<Rightarrow> None)"

definition is_object :: "json \<Rightarrow> bool" where
  "is_object m = (case m of JObject members \<Rightarrow> True | _ \<Rightarrow> False)"


text \<open>A heap in which every list is empty: the conversation of a fresh session.\<close>

definition no_history :: heap where
  "no_history r = []"

section \<open>Properties of \<open>stream_chat\<close>\<close>

text \<open>
  Claim C6. Without a model (\<open>None\<close>), whatever the question and the history, the
  generator yields the one warning that asks to select a model and ends; it POSTs
  nothing, logs nothing and raises nothing.
\<close>

theorem stream_chat_no_model:
  "stream_chat question chat_history None answer =
     \<lparr>items = [JString select_model_warning], posts = [], raised = None, logged = []\<rparr>"
  by (simp add: stream_chat_def)

text \<open>
  Claim C10. The empty string as the model is treated as no model at all, since line
  80 tests the truth value of \<open>model_choice\<close>: the same single warning, and no request.
\<close>

theorem stream_chat_empty_model:
  "stream_chat question chat_history (Some []) answer =
     stream_chat question chat_history None answer \<and>
   items (stream_chat question chat_history (Some []) answer) =
     [JString select_model_warning] \<and>
   posts (stream_chat question chat_history (Some []) answer) = []"
  by (simp add: stream_chat_def)

lemma done_line:
  "startswith ''data: [DONE]'' ''data: ''"
  "strip (drop 6 ''data: [DONE]'') = ''[DONE]''"
  by code_simp+

lemma for_raw_chunk_done:
  "for_raw_chunk (before @ ''data: [DONE]'' # after) ending = for_raw_chunk before Closed"
proof (induction before)
  case Nil
  show ?case using done_line by simp
next
  case (Cons l ls)
  then show ?case by (simp split: sum.splits option.splits prod.splits)
qed

text \<open>
  Claim C5. The line \<open>data: [DONE]\<close> ends the sequence at once: whatever lines follow it,
  and however the stream ends after it, the run is that of the lines before it on a
  stream that closes there.
\<close>

theorem stream_chat_done_ends:
  "stream_chat question chat_history model_choice
     (Response status (before @ ''data: [DONE]'' # after) ending txt) =
   stream_chat question chat_history model_choice (Response status before Closed txt)"
  by (simp add: stream_chat_def for_raw_chunk_done Let_def split: option.splits)

lemma hello_lines:
  \<open>for_raw_chunk
     [''data: {"choices":[{"delta":{"content":"Hel"}}]}'',
      ''data: {"choices":[{"delta":{"content":"lo"}}]}'',
      ''data: [DONE]''] ending = ([JString ''Hel'', JString ''lo''], None)\<close>
  by code_simp

lemma hello_run:
  assumes "m \<noteq> []" and "is_success status"
  shows \<open>stream_chat question chat_history (Some m)
     (Response status
        [''data: {"choices":[{"delta":{"content":"Hel"}}]}'',
         ''data: {"choices":[{"delta":{"content":"lo"}}]}'',
         ''data: [DONE]''] ending txt) =
     \<lparr>items = [JString ''Hel'', JString ''lo''],
      posts = [\<lparr>model = m, messages = chat_history @ [user question], stream = True\<rparr>],
      raised = None, logged = []\<rparr>\<close>
  using assms by (simp add: stream_chat_def Let_def hello_lines del: for_raw_chunk.simps)

text \<open>
  Claim C3. On a response with a 2xx status whose lines are the two data lines with
  the contents \<open>Hel\<close> and \<open>lo\<close> and then \<open>data: [DONE]\<close>, the generator yields exactly the
  tokens \<open>Hel\<close> and \<open>lo\<close>, in that order, and ends without an exception.
\<close>

theorem stream_chat_hello:
  assumes "m \<noteq> []" and "is_success status"
  shows \<open>items (stream_chat question chat_history (Some m)
     (Response status
        [''data: {"choices":[{"delta":{"content":"Hel"}}]}'',
         ''data: {"choices":[{"delta":{"content":"lo"}}]}'',
         ''data: [DONE]''] ending txt)) = [JString ''Hel'', JString ''lo''] \<and>
    raised (stream_chat question chat_history (Some m)
     (Response status
        [''data: {"choices":[{"delta":{"content":"Hel"}}]}'',
         ''data: {"choices":[{"delta":{"content":"lo"}}]}'',
         ''data: [DONE]''] ending txt)) = None\<close>
  using assms by (simp add: hello_run)

theorem stream_chat_hello_witness:
  \<open>''model-a'' \<noteq> [] \<and> is_success 200 \<and>
   items (stream_chat ''Hi'' [] (Some ''model-a'')
     (Response 200
        [''data: {"choices":[{"delta":{"content":"Hel"}}]}'',
         ''data: {"choices":[{"delta":{"content":"lo"}}]}'',
         ''data: [DONE]''] Closed (Inl ResponseNotRead))) = [JString ''Hel'', JString ''lo''] \<and>
   raised (stream_chat ''Hi'' [] (Some ''model-a'')
     (Response 200
        [''data: {"choices":[{"delta":{"content":"Hel"}}]}'',
         ''data: {"choices":[{"delta":{"content":"lo"}}]}'',
         ''data: [DONE]''] Closed (Inl ResponseNotRead))) = None\<close>
  using stream_chat_hello [of "''model-a''" 200 "''Hi''" "[]" Closed "Inl ResponseNotRead"]
  by (simp add: is_success_def)











text \<open>
  Claim C7 fails on the code for an HTTP error status. With the status 500,
  \<open>raise_for_status\<close> raises \<open>HTTPStatusError\<close>; its handler builds the log message from the
  property \<open>text\<close> of the response at line 116, before the \<open>yield\<close> at line 117. The body
  of a streamed response was never read, so reading the property raises
  \<open>ResponseNotRead\<close> inside the handler, where no \<open>except\<close> clause of this \<open>try\<close> applies:
  the generator yields no item and the exception reaches its caller.
\<close>

theorem stream_chat_http_error_raises:
  "stream_chat ''Hi'' [] (Some ''model-a'') (Response 500 [] Closed (Inl ResponseNotRead)) =
     \<lparr>items = [],
      posts = [\<lparr>model = ''model-a'', messages = [user ''Hi''], stream = True\<rparr>],
      raised = Some ResponseNotRead, logged = []\<rparr>"
  by (simp add: stream_chat_def is_success_def)

section \<open>Properties of \<open>respond\<close>\<close>

text \<open>
  Claim C1 fails on the code. With a model chosen, the body POSTed in a turn of
  \<open>respond\<close> holds the history as it was at the call, then the new user message, an
  assistant message with empty content, and the user message a second time: the
  generator reads the list at line 84 only when the loop at line 153 first resumes
  it, after lines 148 and 149 have appended to the same list.
\<close>

theorem respond_posts_extended_history:
  "posts (respond message chat_history (Some (c # cs)) answer h) =
     [\<lparr>model = c # cs,
       messages = h chat_history @ [user message, assistant [], user message],
       stream = True\<rparr>]"
  by (simp add: respond_def stream_chat_def list_append_def Let_def
        split: exchange.splits sum.splits prod.splits option.splits)

lemma prefixes_split: "prefixes ts = [] # tl (prefixes ts)"
  by (cases ts) simp_all

lemma set_last_content_snoc:
  "h r = pre @ [a] \<Longrightarrow>
   set_last_content h r b = Inr (h(r := pre @ [a\<lparr>content := b\<rparr>]))"
  by (simp add: set_last_content_def)

lemma for_token_strings:
  "h r = pre @ [a] \<Longrightarrow>
   for_token r buffer (map JString ts) e h =
     (map (\<lambda>p. (pre @ [a\<lparr>content := buffer @ concat p\<rparr>], [])) (tl (prefixes ts)), e)"
proof (induction ts arbitrary: buffer h a)
  case Nil
  show ?case by simp
next
  case (Cons t ts)
  let ?a = "a\<lparr>content := buffer @ t\<rparr>"
  let ?h = "h(r := pre @ [?a])"
  have s: "set_last_content h r (buffer @ t) = Inr ?h"
    using Cons.prems by (rule set_last_content_snoc)
  have hr: "?h r = pre @ [?a]" by simp
  have ih: "for_token r (buffer @ t) (map JString ts) e ?h =
     (map (\<lambda>p. (pre @ [?a\<lparr>content := (buffer @ t) @ concat p\<rparr>], [])) (tl (prefixes ts)), e)"
    using hr by (rule Cons.IH)
  have "tl (prefixes (t # ts)) = map ((#) t) (prefixes ts)" by simp
  also have "\<dots> = map ((#) t) ([] # tl (prefixes ts))"
    by (subst prefixes_split) (rule refl)
  finally have p: "tl (prefixes (t # ts)) = [t] # map ((#) t) (tl (prefixes ts))"
    by simp
  have "for_token r buffer (map JString (t # ts)) e h =
     ((pre @ [?a], []) #
      map (\<lambda>p. (pre @ [?a\<lparr>content := (buffer @ t) @ concat p\<rparr>], [])) (tl (prefixes ts)), e)"
    by (simp add: s ih)
  also have "\<dots> =
     (map (\<lambda>p. (pre @ [a\<lparr>content := buffer @ concat p\<rparr>], [])) (tl (prefixes (t # ts))), e)"
    unfolding p by (simp add: comp_def)
  finally show ?case .
qed

text \<open>
  Claim C2. From an empty conversation and with a model given, \<open>respond\<close> first yields
  the conversation of the user message and an assistant message with empty content;
  this first pair does not depend on the stream. Then, the items of the generator being
  the strings \<open>tokens\<close>, it yields once for each token, in order: each time the
  conversation whose assistant message holds the concatenation of the tokens received
  so far, that is of a non-empty prefix of \<open>tokens\<close>. The second element of every pair is
  the empty string. The generator is the one \<open>respond\<close> drives: it runs on the list that
  already holds the two new messages.
\<close>

theorem respond_yields_per_token:
  assumes "h chat_history = []"
    and "items (stream_chat message [user message, assistant []] (Some m) answer)
           = map JString tokens"
  shows "items (respond message chat_history (Some m) answer h) =
     ([user message, assistant []], []) #
     map (\<lambda>p. ([user message, assistant (concat p)], [])) (tl (prefixes tokens))"
proof -
  let ?h2 = "list_append (list_append h chat_history (user message)) chat_history (assistant [])"
  have h2: "?h2 chat_history = [user message] @ [assistant []]"
    using assms(1) by (simp add: list_append_def)
  have loop: "for_token chat_history [] (map JString tokens) e ?h2 =
     (map (\<lambda>p. ([user message] @ [(assistant [])\<lparr>content := [] @ concat p\<rparr>], []))
        (tl (prefixes tokens)), e)" for e
    using h2 by (rule for_token_strings)
  have a: "(assistant [])\<lparr>content := c\<rparr> = assistant c" for c
    by (simp add: assistant_def)
  have "items (respond message chat_history (Some m) answer h) =
     (?h2 chat_history, []) #
     fst (for_token chat_history []
            (items (stream_chat message (?h2 chat_history) (Some m) answer))
            (raised (stream_chat message (?h2 chat_history) (Some m) answer)) ?h2)"
    by (simp add: respond_def Let_def split: prod.splits)
  also have "?h2 chat_history = [user message, assistant []]"
    using h2 by simp
  finally show ?thesis
    by (simp add: assms(2) loop a)
qed

theorem respond_yields_per_token_witness:
  \<open>no_history 0 = [] \<and>
   items (stream_chat ''Hi'' [user ''Hi'', assistant []] (Some ''model-a'')
     (Response 200
        [''data: {"choices":[{"delta":{"content":"Hel"}}]}'',
         ''data: {"choices":[{"delta":{"content":"lo"}}]}'',
         ''data: [DONE]''] Closed (Inl ResponseNotRead))) = map JString [''Hel'', ''lo''] \<and>
   items (respond ''Hi'' 0 (Some ''model-a'')
     (Response 200
        [''data: {"choices":[{"delta":{"content":"Hel"}}]}'',
         ''data: {"choices":[{"delta":{"content":"lo"}}]}'',
         ''data: [DONE]''] Closed (Inl ResponseNotRead)) no_history) =
     [([user ''Hi'', assistant []], []),
      ([user ''Hi'', assistant ''Hel''], []),
      ([user ''Hi'', assistant ''Hello''], [])]\<close>
proof -
  have run: \<open>items (stream_chat ''Hi'' [user ''Hi'', assistant []] (Some ''model-a'')
     (Response 200
        [''data: {"choices":[{"delta":{"content":"Hel"}}]}'',
         ''data: {"choices":[{"delta":{"content":"lo"}}]}'',
         ''data: [DONE]''] Closed (Inl ResponseNotRead))) = map JString [''Hel'', ''lo'']\<close>
    by (simp add: hello_run is_success_def)
  have empty: "no_history 0 = []"
    by (simp add: no_history_def)
  show ?thesis
    using respond_yields_per_token [where h = no_history and chat_history = 0
        and tokens = "[''Hel'', ''lo'']", OF empty run] empty run
    by simp
qed

section \<open>Properties of \<open>fetch_models\<close>\<close>

lemma collect_ids_objects:
  "\<forall>m\<in>set ms. is_object m \<Longrightarrow> collect_ids ms = Inr (List.map_filter model_id ms)"
proof (induction ms)
  case Nil
  show ?case by (simp add: map_filter_simps)
next
  case (Cons m ms)
  then obtain members where m: "m = JObject members"
    by (cases m) (simp_all add: is_object_def)
  have ih: "collect_ids ms = Inr (List.map_filter model_id ms)"
    using Cons by simp
  have mid: "model_id m = map_of members ''id''"
    by (simp add: m model_id_def)
  show ?case
  proof (cases "map_of members ''id''")
    case None
    then have "''id'' \<notin> fst ` set members" by (simp add: map_of_eq_None_iff)
    with None show ?thesis
      by (simp add: mid map_filter_simps) (simp add: m ih then_do_def py_contains_def)
  next
    case (Some v)
    then have "''id'' \<in> fst ` set members"
      by (metis map_of_eq_None_iff option.distinct(1))
    with Some show ?thesis
      by (simp add: mid map_filter_simps)
        (simp add: m ih then_do_def py_contains_def py_getitem_def)
  qed
qed

text \<open>
  Claim C8. When the GET answers with a 2xx status and a body that decodes to an
  object whose \<open>data\<close> is a list of objects, \<open>fetch_models\<close> returns the identifiers of
  those that have one, in the order of the list, the others being skipped; the
  default is the first identifier, or \<open>None\<close> when there is none. Nothing is logged.
\<close>

theorem fetch_models_ids:
  assumes "is_success status"
    and "json_loads body = Inr (JObject kvs)"
    and "map_of kvs ''data'' = Some (JArray ms)"
    and "\<forall>m\<in>set ms. is_object m"
  shows "fetch_models endpoint (GetResponse status body) =
     (Inr (List.map_filter model_id ms,
           case List.map_filter model_id ms of [] \<Rightarrow> None | i # ids \<Rightarrow> Some i), [])"
  using assms
  by (simp add: fetch_models_def get_json_def then_do_def py_get_def py_iter_def
        collect_ids_objects)

lemma models_body:
  \<open>json_loads ''{"data":[{"id":"m1"},{"x":1},{"id":"m2"}]}'' =
     Inr (JObject [(''data'', JArray [JObject [(''id'', JString ''m1'')],
                                      JObject [(''x'', JInt 1)],
                                      JObject [(''id'', JString ''m2'')]])])\<close>
  by code_simp

theorem fetch_models_ids_witness:
  \<open>is_success 200 \<and>
   json_loads ''{"data":[{"id":"m1"},{"x":1},{"id":"m2"}]}'' =
     Inr (JObject [(''data'', JArray [JObject [(''id'', JString ''m1'')],
                                      JObject [(''x'', JInt 1)],
                                      JObject [(''id'', JString ''m2'')]])]) \<and>
   map_of [(''data'', JArray [JObject [(''id'', JString ''m1'')],
                              JObject [(''x'', JInt 1)],
                              JObject [(''id'', JString ''m2'')]])] ''data'' =
     Some (JArray [JObject [(''id'', JString ''m1'')],
                   JObject [(''x'', JInt 1)],
                   JObject [(''id'', JString ''m2'')]]) \<and>
   is_object (JObject [(''id'', JString ''m1'')]) \<and>
   is_object (JObject [(''x'', JInt 1)]) \<and>
   is_object (JObject [(''id'', JString ''m2'')]) \<and>
   fetch_models ''http://localhost:8080/openai/v1/models''
     (GetResponse 200 ''{"data":[{"id":"m1"},{"x":1},{"id":"m2"}]}'') =
     (Inr ([JString ''m1'', JString ''m2''], Some (JString ''m1'')), [])\<close>
  using fetch_models_ids [of 200 \<open>''{"data":[{"id":"m1"},{"x":1},{"id":"m2"}]}''\<close>
      "[(''data'', JArray [JObject [(''id'', JString ''m1'')],
                           JObject [(''x'', JInt 1)],
                           JObject [(''id'', JString ''m2'')]])]"
      "[JObject [(''id'', JString ''m1'')], JObject [(''x'', JInt 1)],
        JObject [(''id'', JString ''m2'')]]"
      "''http://localhost:8080/openai/v1/models''"]
    models_body
  by (simp add: is_success_def is_object_def model_id_def map_filter_simps)

text \<open>
  What lines 41 to 47 do catch: when the GET raises, or answers with a status outside
  2xx, or with a body that the decoder rejects, \<open>fetch_models\<close> raises nothing; it returns
  the empty list and no default, and logs one error that names the endpoint.
\<close>

lemma fetch_models_caught:
  assumes "outcome = GetFailed \<or>
     (\<exists>status body. outcome = GetResponse status body \<and>
        (\<not> is_success status \<or> (\<exists>e. json_loads body = Inl e)))"
  shows "fst (fetch_models endpoint outcome) = Inr ([], None) \<and>
     (\<exists>e. snd (fetch_models endpoint outcome) =
        [LogError (''Failed to fetch models from '' @ endpoint) (Some e)])"
  using assms by (auto simp: fetch_models_def get_json_def)

lemma null_data_decodes:
  \<open>json_loads ''{"data":null}'' = Inr (JObject [(''data'', JNull)])\<close>
  by code_simp

lemma list_body_decodes:
  \<open>json_loads ''[]'' = Inr (JArray [])\<close>
  by code_simp

text \<open>
  Claim C9 fails on the code for a body that is JSON of another shape than the
  expected one. Line 49 stands after the \<open>try\<close> of lines 41 to 47, so what it raises
  leaves \<open>fetch_models\<close>. On a 2xx answer with the body \<open>{"data":null}\<close>, \<open>data.get\<close> returns
  \<open>None\<close> and the comprehension raises \<open>TypeError\<close> when it iterates over it; on the body
  \<open>[]\<close>, a list, \<open>data.get\<close> itself raises \<open>AttributeError\<close>. Both times the exception
  reaches the caller, there is no pair of an empty list and no default, and nothing
  is logged.
\<close>

theorem fetch_models_wrong_shape_raises:
  \<open>json_loads ''{"data":null}'' = Inr (JObject [(''data'', JNull)]) \<and>
   fetch_models ''http://localhost:8080/openai/v1/models''
     (GetResponse 200 ''{"data":null}'') = (Inl TypeError, []) \<and>
   json_loads ''[]'' = Inr (JArray []) \<and>
   fetch_models ''http://localhost:8080/openai/v1/models''
     (GetResponse 200 ''[]'') = (Inl AttributeError, [])\<close>
  by (simp add: null_data_decodes list_body_decodes fetch_models_def get_json_def
        is_success_def then_do_def py_get_def py_iter_def)

end
